theory Spec2Isabelle
  imports Main "HOL-Library.Word"
begin

section \<open>JavaScript strings\<close>

text \<open>
  A JavaScript string is a sequence of UTF-16 code units. Literals of the source are
  ASCII and are written through \<open>js\<close>.
\<close>

type_synonym jschar = "16 word"
type_synonym jsstring = "jschar list"

definition js :: "string \<Rightarrow> jsstring" where
  "js cs = map (\<lambda>c. of_nat (of_char c)) cs"

text \<open>
  \<open>String.prototype.trim\<close> removes leading and trailing WhiteSpace and LineTerminator
  code points of ECMAScript: TAB, LF, VT, FF, CR, SP, NBSP, U+1680, U+2000..U+200A,
  U+2028, U+2029, U+202F, U+205F, U+3000 and U+FEFF (all in the basic plane).
\<close>

definition isWhiteSpace :: "jschar \<Rightarrow> bool" where
  "isWhiteSpace c \<longleftrightarrow>
     c \<in> set [0x9, 0xA, 0xB, 0xC, 0xD, 0x20, 0xA0, 0x1680, 0x2028, 0x2029,
              0x202F, 0x205F, 0x3000, 0xFEFF]
     \<or> (0x2000 \<le> c \<and> c \<le> 0x200A)"

definition trim :: "jsstring \<Rightarrow> jsstring" where
  "trim s = rev (dropWhile isWhiteSpace (rev (dropWhile isWhiteSpace s)))"

text \<open>\<open>String.prototype.includes\<close>: the substring test.\<close>

fun includes_js :: "jsstring \<Rightarrow> jsstring \<Rightarrow> bool" where
  "includes_js [] sub = (sub = [])"
| "includes_js (c # cs) sub = (take (length sub) (c # cs) = sub \<or> includes_js cs sub)"

text \<open>
  \<open>Number.prototype.toString\<close> on a non-negative integer: its decimal digits.
  \<open>Date.now()\<close> is an integer number of milliseconds, far below \<open>2^53\<close>, so the
  numbers the program renders are exact and are modelled by \<open>nat\<close>.
\<close>

function toString :: "nat \<Rightarrow> jsstring" where
  "toString n =
     (if n < 10 then [of_nat (48 + n)]
      else toString (n div 10) @ [of_nat (48 + n mod 10)])"
  by pat_completeness auto
termination
  by (relation "measure (\<lambda>n. n)") auto

section \<open>Data model (types.ts)\<close>

datatype Sender = USER | AI

record Message =
  id' :: jsstring
  text' :: jsstring
  sender :: Sender
  timestamp :: nat

text \<open>
  A \<open>SpeechRecognitionAlternative\<close>; its \<open>confidence\<close> is never read by the program.
\<close>

record SpeechRecognitionAlternative =
  transcript :: jsstring

record SpeechRecognitionResult =
  isFinal :: bool
  alternatives :: "SpeechRecognitionAlternative list"

record SpeechRecognitionEvent =
  resultIndex :: nat
  results :: "SpeechRecognitionResult list"

datatype SpeechRecognitionErrorCode =
  no_speech | aborted | audio_capture | network | not_allowed
| service_not_allowed | bad_grammar | language_not_supported

fun codeString :: "SpeechRecognitionErrorCode \<Rightarrow> jsstring" where
  "codeString no_speech = js ''no-speech''"
| "codeString aborted = js ''aborted''"
| "codeString audio_capture = js ''audio-capture''"
| "codeString network = js ''network''"
| "codeString not_allowed = js ''not-allowed''"
| "codeString service_not_allowed = js ''service-not-allowed''"
| "codeString bad_grammar = js ''bad-grammar''"
| "codeString language_not_supported = js ''language-not-supported''"

section \<open>The browser and the backend as seen by the program\<close>

text \<open>The opaque chat session of the \<open>@google/genai\<close> client.\<close>

datatype Chat = ChatSession nat

text \<open>
  A thrown value: an \<open>Error\<close> object with its \<open>name\<close> and \<open>message\<close>, or a value
  that is no \<open>Error\<close> and has neither property.
\<close>

datatype thrown = ErrorObj jsstring jsstring | NonError

text \<open>\<open>e.message || 'Unknown error'\<close>\<close>

fun messageOrUnknown :: "thrown \<Rightarrow> jsstring" where
  "messageOrUnknown (ErrorObj n m) = (if m = [] then js ''Unknown error'' else m)"
| "messageOrUnknown NonError = js ''Unknown error''"

text \<open>
  What is fixed when the page loads: \<open>process.env.API_KEY\<close>, a string or \<open>undefined\<close>
  (\<open>None\<close>); whether the module-level \<open>recognition\<close> object exists; and whether
  \<open>'speechSynthesis' in window\<close>.
\<close>

record env =
  API_KEY :: "jsstring option"
  recognition :: bool
  hasSpeechSynthesis :: bool

text \<open>
  The truth value of the key, as \<open>!API_KEY\<close> and \<open>!process.env.API_KEY\<close> test it: an
  undefined key and the empty string are false.
\<close>

definition apiKey :: "env \<Rightarrow> bool" where
  "apiKey e \<longleftrightarrow> (case API_KEY e of None \<Rightarrow> False | Some k \<Rightarrow> k \<noteq> [])"

text \<open>
  The module-level statement of line 13, \<open>new GoogleGenAI({ apiKey: API_KEY! })\<close>. The
  constructor belongs to the \<open>@google/genai\<close> library; as the comment of line 12 says, it
  throws when the key is undefined.
\<close>

definition clientConstructorThrows :: "env \<Rightarrow> bool" where
  "clientConstructorThrows e \<longleftrightarrow> API_KEY e = None"

text \<open>Calls the program makes on its collaborators, in order (\<open>console.error\<close> is left out).\<close>

datatype effect =
  ChatsCreate
| SendMessage Chat jsstring
| SynthCancel
| SynthSpeak jsstring
| GetUserMedia
| RecognitionStart
| RecognitionStop

text \<open>How \<open>ai.chats.create\<close> and \<open>chat.sendMessage\<close> end.\<close>

datatype create_outcome = Created Chat | CreateThrew thrown

datatype send_outcome = Responded jsstring | SendThrew thrown

text \<open>
  How the \<open>try\<close> block of \<open>handleToggleRecording\<close> ends: \<open>getUserMedia\<close> rejects,
  or it resolves and \<open>recognition.start()\<close> throws, or both succeed.
\<close>

datatype mic_outcome = Started | MediaThrew thrown | StartThrew thrown

section \<open>geminiService.ts\<close>

definition createChatSession :: "env \<Rightarrow> create_outcome \<Rightarrow> thrown + Chat" where
  "createChatSession e out =
     (if \<not> apiKey e
      then Inl (ErrorObj (js ''Error'')
             (js ''API_KEY environment variable is not set. Cannot create chat session.''))
      else (case out of Created c \<Rightarrow> Inr c | CreateThrew t \<Rightarrow> Inl t))"

definition getAIChatResponse :: "env \<Rightarrow> send_outcome \<Rightarrow> thrown + jsstring" where
  "getAIChatResponse e out =
     (if \<not> apiKey e
      then Inl (ErrorObj (js ''Error'')
             (js ''API_KEY environment variable is not set. Cannot get AI response.''))
      else (case out of
              Responded t \<Rightarrow> Inr t
            | SendThrew (ErrorObj n m) \<Rightarrow>
                Inl (ErrorObj (js ''Error'') (js ''Failed to get AI response: '' @ m))
            | SendThrew NonError \<Rightarrow>
                Inl (ErrorObj (js ''Error'')
                  (js ''Failed to get AI response due to an unknown error.''))))"

section \<open>App.tsx: the state\<close>

text \<open>
  The handlers that the recognition effect assigns are closures over the render in which
  the effect ran: they hold that render's \<open>isRecording\<close> and, through
  \<open>processAndSendTranscript\<close>, that render's \<open>chat\<close>.
\<close>

record closure =
  cl_isRecording :: bool
  cl_chat :: "Chat option"

text \<open>
  The eleven \<open>useState\<close>/\<open>useRef\<close> cells of \<open>App\<close>, followed by what lives outside
  React: the handlers currently assigned to \<open>recognition\<close>, the number of suspended
  \<open>processAndSendTranscript\<close> and \<open>handleToggleRecording\<close> calls (each waits at its
  \<open>await\<close>), the number of utterances that carry the callbacks of \<open>speakText\<close>, the
  calls made so far, and whether loading the modules of the page failed, in which case
  \<open>App\<close> was never mounted.
\<close>

record app_state =
  chat :: "Chat option"
  messages :: "Message list"
  isRecording :: bool
  interimTranscript :: jsstring
  userTranscriptRef :: jsstring
  isLoadingAI :: bool
  isAISpeaking :: bool
  error :: "jsstring option"
  isInitialized :: bool
  apiKeyMissing :: bool
  conversationStarted :: bool
  handlers :: "closure option"
  pendingRequests :: nat
  pendingToggles :: nat
  utterances :: nat
  trace :: "effect list"
  loadFailed :: bool

definition initialState :: app_state where
  "initialState =
     \<lparr> chat = None, messages = [], isRecording = False, interimTranscript = [],
       userTranscriptRef = [], isLoadingAI = False, isAISpeaking = False, error = None,
       isInitialized = False, apiKeyMissing = False, conversationStarted = False,
       handlers = None, pendingRequests = 0, pendingToggles = 0, utterances = 0,
       trace = [], loadFailed = False \<rparr>"

section \<open>App.tsx: the handlers\<close>

text \<open>
  The mount effect (lines 43-69). \<open>initializeChat\<close> has no \<open>await\<close>, so it runs to
  its end inside the effect. \<open>now\<close> is what \<open>Date.now()\<close> returns and \<open>date\<close> what
  \<open>new Date()\<close> returns when the greeting is built.
\<close>

definition initialMessageText :: jsstring where
  "initialMessageText =
     js ''Hello! I'm your AI English practice partner. How are you doing today?''"

definition mountEffect :: "env \<Rightarrow> create_outcome \<Rightarrow> nat \<Rightarrow> nat \<Rightarrow> app_state \<Rightarrow> app_state" where
  "mountEffect e out now date s =
     (if \<not> apiKey e
      then s\<lparr> error := Some (js
                 ''Critical Error: API_KEY is not configured. The application cannot function.''),
               apiKeyMissing := True, isInitialized := False \<rparr>
      else
        (let s1 = s\<lparr> apiKeyMissing := False, trace := trace s @ [ChatsCreate] \<rparr>
         in case createChatSession e out of
              Inr newChat \<Rightarrow>
                s1\<lparr> chat := Some newChat,
                    messages := [\<lparr> id' = toString now, text' = initialMessageText,
                                   sender = AI, timestamp = date \<rparr>],
                    isInitialized := True \<rparr>
            | Inl ex \<Rightarrow>
                s1\<lparr> error := Some (js ''Initialization failed: '' @ messageOrUnknown ex @
                      js ''. Please ensure your API key is valid and check network connection.''),
                    isInitialized := False \<rparr>))"

text \<open>
  \<open>speakText\<close> (lines 71-90). \<open>speaking\<close> is the value of \<open>speechSynthesis.speaking\<close>
  when the function runs.
\<close>

definition speakText :: "env \<Rightarrow> bool \<Rightarrow> jsstring \<Rightarrow> app_state \<Rightarrow> app_state" where
  "speakText e speaking txt s =
     (if \<not> hasSpeechSynthesis e
      then s\<lparr> error := Some (js ''Text-to-Speech not supported in this browser.'') \<rparr>
      else
        (let s1 = (if speaking then s\<lparr> trace := trace s @ [SynthCancel] \<rparr> else s)
         in s1\<lparr> utterances := Suc (utterances s1),
                 trace := trace s1 @ [SynthSpeak txt] \<rparr>))"

text \<open>The three callbacks that \<open>speakText\<close> puts on its utterance.\<close>

definition utterance_onstart :: "app_state \<Rightarrow> app_state" where
  "utterance_onstart s = s\<lparr> isAISpeaking := True \<rparr>"

definition utterance_onend :: "app_state \<Rightarrow> app_state" where
  "utterance_onend s = s\<lparr> isAISpeaking := False \<rparr>"

definition utterance_onerror :: "jsstring \<Rightarrow> app_state \<Rightarrow> app_state" where
  "utterance_onerror code s =
     s\<lparr> error := Some (js ''Text-to-speech error: '' @ code), isAISpeaking := False \<rparr>"

text \<open>\<open>handleStartConversation\<close> (lines 92-98).\<close>

definition handleStartConversation :: "env \<Rightarrow> bool \<Rightarrow> app_state \<Rightarrow> app_state" where
  "handleStartConversation e speaking s =
     (let s1 = (case messages s of
                  [] \<Rightarrow> s
                | m # _ \<Rightarrow>
                    if sender m = AI \<and> \<not> conversationStarted s
                    then speakText e speaking (text' m) s else s)
      in s1\<lparr> conversationStarted := True, error := None \<rparr>)"

text \<open>
  \<open>processAndSendTranscript\<close> (lines 101-124) up to its \<open>await\<close>. \<open>ch\<close> is the \<open>chat\<close>
  of the closure. With a non-empty trimmed transcript and a session, the user's Turn is
  logged, the busy flag is raised and \<open>getAIChatResponse\<close> is called, which reaches
  \<open>chat.sendMessage\<close> when the key is set; the call then waits. Otherwise the two last
  statements of the function run at once.
\<close>

definition processAndSendTranscript ::
  "env \<Rightarrow> Chat option \<Rightarrow> jsstring \<Rightarrow> nat \<Rightarrow> nat \<Rightarrow> app_state \<Rightarrow> app_state" where
  "processAndSendTranscript e ch transcript' now date s =
     (let trimmedTranscript = trim transcript'
      in case ch of
           Some c \<Rightarrow>
             if trimmedTranscript \<noteq> []
             then s\<lparr> messages := messages s @
                        [\<lparr> id' = toString now, text' = trimmedTranscript,
                           sender = USER, timestamp = date \<rparr>],
                      isLoadingAI := True,
                      pendingRequests := Suc (pendingRequests s),
                      trace := trace s @
                        (if apiKey e then [SendMessage c trimmedTranscript] else []) \<rparr>
             else s\<lparr> userTranscriptRef := [], interimTranscript := [] \<rparr>
         | None \<Rightarrow> s\<lparr> userTranscriptRef := [], interimTranscript := [] \<rparr>)"

text \<open>
  The rest of \<open>processAndSendTranscript\<close>, run when the awaited \<open>getAIChatResponse\<close>
  settles: the \<open>try\<close> continuation or the \<open>catch\<close> block, then \<open>finally\<close>, then the
  two last statements.
\<close>

definition fallbackMessage :: jsstring where
  "fallbackMessage = js ''Sorry, I encountered an issue. Could you please try that again?''"

definition processAndSendTranscript_resume ::
  "env \<Rightarrow> send_outcome \<Rightarrow> nat \<Rightarrow> nat \<Rightarrow> bool \<Rightarrow> app_state \<Rightarrow> app_state" where
  "processAndSendTranscript_resume e out now date speaking s =
     (let s1 =
        (case getAIChatResponse e out of
           Inr aiResponseText \<Rightarrow>
             speakText e speaking aiResponseText
               (s\<lparr> messages := messages s @
                     [\<lparr> id' = toString (now + 1), text' = aiResponseText,
                        sender = AI, timestamp = date \<rparr>] \<rparr>)
         | Inl ex \<Rightarrow>
             speakText e speaking fallbackMessage
               (s\<lparr> error := Some (js ''Error getting AI response: '' @ messageOrUnknown ex),
                    messages := messages s @
                     [\<lparr> id' = toString (now + 1), text' = fallbackMessage,
                        sender = AI, timestamp = date \<rparr>] \<rparr>))
      in s1\<lparr> isLoadingAI := False, userTranscriptRef := [], interimTranscript := [] \<rparr>)"

text \<open>
  \<open>recognition.onresult\<close> (lines 130-144). The loop runs over the results from
  \<open>resultIndex\<close> on; \<open>event.results[i][0]\<close> of a result without alternatives is
  \<open>undefined\<close> and reading its \<open>transcript\<close> throws, which ends the handler before
  either write.
\<close>

fun onresult_loop ::
  "SpeechRecognitionResult list \<Rightarrow> jsstring \<times> jsstring \<Rightarrow> (jsstring \<times> jsstring) option" where
  "onresult_loop [] acc = Some acc"
| "onresult_loop (r # rs) (currentFinal, currentInterim) =
     (case alternatives r of
        [] \<Rightarrow> None
      | a # _ \<Rightarrow>
          if isFinal r
          then onresult_loop rs (currentFinal @ transcript a @ js '' '', currentInterim)
          else onresult_loop rs (currentFinal, currentInterim @ transcript a))"

definition recognition_onresult :: "SpeechRecognitionEvent \<Rightarrow> app_state \<Rightarrow> app_state" where
  "recognition_onresult ev s =
     (case onresult_loop (drop (resultIndex ev) (results ev)) (userTranscriptRef s, []) of
        None \<Rightarrow> s
      | Some (currentFinal, currentInterim) \<Rightarrow>
          s\<lparr> userTranscriptRef := currentFinal, interimTranscript := currentInterim \<rparr>)"

text \<open>\<open>recognition.onerror\<close> (lines 146-160).\<close>

definition recognition_onerror :: "SpeechRecognitionErrorCode \<Rightarrow> app_state \<Rightarrow> app_state" where
  "recognition_onerror code s =
     s\<lparr> error := Some
           (if code = no_speech
            then js ''I didn't hear anything. Please try speaking again.''
            else if code = audio_capture
            then js ''Audio capture error. Please check your microphone.''
            else if code = not_allowed
            then js ''Microphone access was denied. Please enable microphone permissions in your browser settings.''
            else js ''Speech recognition error: '' @ codeString code),
         isRecording := False, userTranscriptRef := [], interimTranscript := [] \<rparr>"

text \<open>
  \<open>recognition.onend\<close> (lines 162-167): \<open>isRecording\<close> and \<open>processAndSendTranscript\<close>
  are those of the closure, \<open>userTranscriptRef.current\<close> is read when the handler runs.
\<close>

definition recognition_onend ::
  "env \<Rightarrow> closure \<Rightarrow> nat \<Rightarrow> nat \<Rightarrow> app_state \<Rightarrow> app_state" where
  "recognition_onend e cl now date s =
     (if cl_isRecording cl
      then processAndSendTranscript e (cl_chat cl) (userTranscriptRef s) now date
             (s\<lparr> isRecording := False \<rparr>)
      else s)"

text \<open>
  The recognition effect (lines 127-169): it returns early without \<open>recognition\<close> or
  when not recording, and assigns the three handlers otherwise.
\<close>

definition recognitionEffect :: "env \<Rightarrow> app_state \<Rightarrow> app_state" where
  "recognitionEffect e s =
     (if \<not> recognition e \<or> \<not> isRecording s then s
      else s\<lparr> handlers := Some \<lparr> cl_isRecording = isRecording s, cl_chat = chat s \<rparr> \<rparr>)"

text \<open>
  \<open>handleToggleRecording\<close> (lines 172-205) up to its \<open>await\<close>: the guard, the
  cancellation of playback, and either the stop branch or the call of \<open>getUserMedia\<close>,
  at which the handler waits.
\<close>

definition handleToggleRecording :: "env \<Rightarrow> app_state \<Rightarrow> app_state" where
  "handleToggleRecording e s =
     (if apiKeyMissing s \<or> \<not> isInitialized s \<or> \<not> recognition e \<or> \<not> conversationStarted s
      then
        (let s1 = (if \<not> recognition e
                   then s\<lparr> error := Some (js
                          ''Speech recognition is not available in your browser.'') \<rparr>
                   else s)
         in if \<not> conversationStarted s
            then s1\<lparr> error := Some (js ''Please start the conversation first.'') \<rparr>
            else s1)
      else
        (let s1 = (if isAISpeaking s
                   then s\<lparr> isAISpeaking := False, trace := trace s @ [SynthCancel] \<rparr>
                   else s)
         in if isRecording s
            then s1\<lparr> isRecording := False, trace := trace s1 @ [RecognitionStop] \<rparr>
            else s1\<lparr> pendingToggles := Suc (pendingToggles s1),
                     trace := trace s1 @ [GetUserMedia] \<rparr>))"

text \<open>
  The rest of the \<open>try\<close> block and the \<open>catch\<close> block, run when \<open>getUserMedia\<close>
  settles.
\<close>

fun permissionDenied :: "thrown \<Rightarrow> bool" where
  "permissionDenied (ErrorObj n m) =
     (n = js ''NotAllowedError'' \<or> n = js ''PermissionDeniedError'')"
| "permissionDenied NonError = False"

definition toggleCatch :: "thrown \<Rightarrow> app_state \<Rightarrow> app_state" where
  "toggleCatch err s =
     s\<lparr> error := Some
           (if permissionDenied err
            then js ''Microphone access denied. Please enable microphone permissions in your browser settings.''
            else js ''Could not start recording. Please check microphone.''),
         isRecording := False \<rparr>"

definition handleToggleRecording_resume :: "mic_outcome \<Rightarrow> app_state \<Rightarrow> app_state" where
  "handleToggleRecording_resume out s =
     (case out of
        MediaThrew err \<Rightarrow> toggleCatch err s
      | StartThrew err \<Rightarrow>
          toggleCatch err
            (s\<lparr> userTranscriptRef := [], interimTranscript := [],
                 trace := trace s @ [RecognitionStart] \<rparr>)
      | Started \<Rightarrow>
          s\<lparr> userTranscriptRef := [], interimTranscript := [],
              trace := trace s @ [RecognitionStart],
              isRecording := True, error := None \<rparr>)"

section \<open>App.tsx: what is rendered\<close>

text \<open>
  The JSX of lines 207-303, reduced to what decides which controls exist and whether they
  are enabled. \<open>startButton\<close> is \<open>None\<close> when the start button is not rendered and
  \<open>Some d\<close> when it is rendered with \<open>disabled = d\<close>. A string in a JSX condition
  counts as true when it is not empty. When the modules failed to load nothing of \<open>App\<close>
  is on the page.
\<close>

record main_view =
  errorBanner :: "jsstring option"
  initializingSpinner :: bool
  bubbles :: "Message list"
  startButton :: "bool option"
  interimBubble :: "jsstring option"
  micDisabled :: bool
  micShowsStop :: bool

datatype view = NothingRendered | ConfigurationError "jsstring option" | MainView main_view

definition render :: "app_state \<Rightarrow> view" where
  "render s =
     (if loadFailed s then NothingRendered
      else if apiKeyMissing s then ConfigurationError (error s)
      else MainView
        \<lparr> errorBanner = (case error s of None \<Rightarrow> None
                          | Some m \<Rightarrow> if m = [] then None else Some m),
          initializingSpinner = (\<not> isInitialized s \<and> \<not> apiKeyMissing s),
          bubbles = (if isInitialized s then messages s else []),
          startButton =
            (if isInitialized s \<and> \<not> conversationStarted s \<and> 0 < length (messages s)
             then Some (isAISpeaking s) else None),
          interimBubble =
            (if isRecording s \<and> interimTranscript s \<noteq> []
             then Some (userTranscriptRef s @ interimTranscript s @ js ''...'') else None),
          micDisabled =
            (\<not> isInitialized s \<or> isLoadingAI s \<or> apiKeyMissing s \<or> \<not> conversationStarted s
             \<or> (isRecording s \<and> interimTranscript s = [] \<and> userTranscriptRef s = [])),
          micShowsStop = isRecording s \<rparr>)"

section \<open>The event loop\<close>

text \<open>
  Everything that can run after the mount: a click on a rendered, enabled button; the
  settling of an awaited promise, which resumes one suspended call; a recognition event,
  which runs the handler assigned to \<open>recognition\<close> if there is one; a callback of an
  utterance, if \<open>speakText\<close> has created one. Each event carries what its handler reads
  from the browser: \<open>speechSynthesis.speaking\<close>, \<open>Date.now()\<close>, \<open>new Date()\<close>.
\<close>

datatype event =
  ClickStart bool
| ClickMic
| MediaSettled mic_outcome
| RecResult SpeechRecognitionEvent
| RecError SpeechRecognitionErrorCode
| RecEnd nat nat
| BackendSettled send_outcome nat nat bool
| UttStart
| UttEnd
| UttError jsstring

fun handle :: "env \<Rightarrow> event \<Rightarrow> app_state \<Rightarrow> app_state" where
  "handle e (ClickStart speaking) s =
     (case render s of
        MainView v \<Rightarrow>
          (if startButton v = Some False then handleStartConversation e speaking s else s)
      | ConfigurationError m \<Rightarrow> s
      | NothingRendered \<Rightarrow> s)"
| "handle e ClickMic s =
     (case render s of
        MainView v \<Rightarrow> (if micDisabled v then s else handleToggleRecording e s)
      | ConfigurationError m \<Rightarrow> s
      | NothingRendered \<Rightarrow> s)"
| "handle e (MediaSettled out) s =
     (if pendingToggles s = 0 then s
      else handleToggleRecording_resume out (s\<lparr> pendingToggles := pendingToggles s - 1 \<rparr>))"
| "handle e (RecResult ev) s =
     (case handlers s of None \<Rightarrow> s | Some cl \<Rightarrow> recognition_onresult ev s)"
| "handle e (RecError code) s =
     (case handlers s of None \<Rightarrow> s | Some cl \<Rightarrow> recognition_onerror code s)"
| "handle e (RecEnd now date) s =
     (case handlers s of None \<Rightarrow> s | Some cl \<Rightarrow> recognition_onend e cl now date s)"
| "handle e (BackendSettled out now date speaking) s =
     (if pendingRequests s = 0 then s
      else processAndSendTranscript_resume e out now date speaking
             (s\<lparr> pendingRequests := pendingRequests s - 1 \<rparr>))"
| "handle e UttStart s = (if utterances s = 0 then s else utterance_onstart s)"
| "handle e UttEnd s = (if utterances s = 0 then s else utterance_onend s)"
| "handle e (UttError code) s = (if utterances s = 0 then s else utterance_onerror code s)"

text \<open>
  After a handler, React renders again and runs the recognition effect when one of its
  dependencies changed: \<open>isRecording\<close>, or \<open>processAndSendTranscript\<close>, which is made
  anew exactly when \<open>chat\<close> changes (\<open>speakText\<close> never changes).
\<close>

definition dispatch :: "env \<Rightarrow> event \<Rightarrow> app_state \<Rightarrow> app_state" where
  "dispatch e ev s =
     (let s' = handle e ev s
      in if isRecording s' = isRecording s \<and> chat s' = chat s then s'
         else recognitionEffect e s')"

text \<open>
  Loading the page evaluates \<open>geminiService.ts\<close>, which \<open>App.tsx\<close> imports, before
  anything of \<open>App.tsx\<close> runs. When the constructor call of its line 13 throws, the
  import fails and \<open>App\<close> is never mounted: no effect runs and nothing is rendered.
  Otherwise the first render runs both effects on the initial state, and the render that
  follows the mount effect runs the recognition effect again.
\<close>

definition boot :: "env \<Rightarrow> create_outcome \<Rightarrow> nat \<Rightarrow> nat \<Rightarrow> app_state" where
  "boot e out now date =
     (if clientConstructorThrows e then initialState\<lparr> loadFailed := True \<rparr>
      else recognitionEffect e
             (mountEffect e out now date (recognitionEffect e initialState)))"

fun run :: "env \<Rightarrow> event list \<Rightarrow> app_state \<Rightarrow> app_state" where
  "run e [] s = s"
| "run e (ev # evs) s = run e evs (dispatch e ev s)"

section \<open>Notions used to state the properties\<close>

text \<open>The texts handed to \<open>speechSynthesis.speak\<close> and to \<open>chat.sendMessage\<close>, in order.\<close>

fun spoken :: "effect list \<Rightarrow> jsstring list" where
  "spoken [] = []"
| "spoken (SynthSpeak t # es) = t # spoken es"
| "spoken (x # es) = spoken es"

fun sentTexts :: "effect list \<Rightarrow> jsstring list" where
  "sentTexts [] = []"
| "sentTexts (SendMessage c t # es) = t # sentTexts es"
| "sentTexts (x # es) = sentTexts es"

text \<open>
  The segments an event delivers are its results from \<open>resultIndex\<close> on, each with the
  transcript of its first alternative; the finalized ones are those flagged \<open>isFinal\<close>.
  An event is well formed when each of these results has an alternative.
\<close>

definition firstTranscript :: "SpeechRecognitionResult \<Rightarrow> jsstring" where
  "firstTranscript r = (case alternatives r of [] \<Rightarrow> [] | a # _ \<Rightarrow> transcript a)"

definition finalSegments :: "SpeechRecognitionEvent \<Rightarrow> jsstring list" where
  "finalSegments ev =
     map firstTranscript (filter isFinal (drop (resultIndex ev) (results ev)))"

definition wellFormedEvent :: "SpeechRecognitionEvent \<Rightarrow> bool" where
  "wellFormedEvent ev =
     list_all (\<lambda>r. alternatives r \<noteq> []) (drop (resultIndex ev) (results ev))"

text \<open>
  What may happen between the start of a recording and its end event: result events, and
  clicks on the microphone button (the user stopping the recording).
\<close>

fun sessionEvent :: "event \<Rightarrow> bool" where
  "sessionEvent (RecResult ev) = wellFormedEvent ev"
| "sessionEvent ClickMic = True"
| "sessionEvent _ = False"

fun eventFinals :: "event \<Rightarrow> jsstring list" where
  "eventFinals (RecResult ev) = finalSegments ev"
| "eventFinals _ = []"

text \<open>
  Facts that hold of every state the program reaches: a session and a key exist once
  initialized; a suspended toggle and a recording passed the guard of
  \<open>handleToggleRecording\<close>; assigned handlers close over \<open>isRecording = true\<close> and the
  one session; without handlers nothing has been transcribed.
\<close>

definition wf :: "env \<Rightarrow> app_state \<Rightarrow> bool" where
  "wf e s \<longleftrightarrow>
     (isInitialized s \<longrightarrow> apiKey e \<and> chat s \<noteq> None) \<and>
     (0 < pendingToggles s \<longrightarrow> isInitialized s \<and> recognition e) \<and>
     (isRecording s \<longrightarrow> isInitialized s \<and> recognition e \<and> handlers s \<noteq> None) \<and>
     (\<forall>cl. handlers s = Some cl \<longrightarrow>
        cl_isRecording cl \<and> cl_chat cl = chat s \<and> isInitialized s) \<and>
     (handlers s = None \<longrightarrow> userTranscriptRef s = [] \<and> interimTranscript s = [])"

text \<open>Concrete browsers, events and histories used to instantiate the theorems.\<close>

definition fullBrowser :: env where
  "fullBrowser =
     \<lparr> API_KEY = Some (js ''key''), recognition = True, hasSpeechSynthesis = True \<rparr>"

definition silentBrowser :: env where
  "silentBrowser =
     \<lparr> API_KEY = Some (js ''key''), recognition = True, hasSpeechSynthesis = False \<rparr>"

definition unsetKeyBrowser :: env where
  "unsetKeyBrowser = \<lparr> API_KEY = None, recognition = True, hasSpeechSynthesis = True \<rparr>"

definition emptyKeyBrowser :: env where
  "emptyKeyBrowser = \<lparr> API_KEY = Some [], recognition = True, hasSpeechSynthesis = True \<rparr>"

definition segment :: "bool \<Rightarrow> string \<Rightarrow> SpeechRecognitionEvent" where
  "segment final t =
     \<lparr> resultIndex = 0,
       results = [\<lparr> isFinal = final, alternatives = [\<lparr> transcript = js t \<rparr>] \<rparr>] \<rparr>"

definition started :: "env \<Rightarrow> app_state" where
  "started e = run e [ClickStart False] (boot e (Created (ChatSession 0)) 1000 1000)"

definition greeted :: "env \<Rightarrow> app_state" where
  "greeted e = run e [UttStart, UttEnd] (started e)"

definition awaitingReply :: "env \<Rightarrow> app_state" where
  "awaitingReply e =
     run e [ClickMic, MediaSettled Started, RecResult (segment True ''hi''), RecEnd 2000 2000]
       (greeted e)"

definition fetchFailed :: send_outcome where
  "fetchFailed = SendThrew (ErrorObj (js ''TypeError'') (js ''Failed to fetch''))"

definition helloEvents :: "event list" where
  "helloEvents =
     [RecResult (segment False ''Hello''), RecResult (segment False ''Hello, how''),
      RecResult (segment True ''Hello, how are you?''), ClickMic]"

definition blankHistory :: "event list" where
  "blankHistory =
     [ClickStart False, ClickMic, MediaSettled Started,
      RecResult (segment False ''uh''), RecResult (segment True ''  '')]"

definition raceUntilSent :: "event list" where
  "raceUntilSent =
     [ClickMic, MediaSettled Started, RecResult (segment False ''one''),
      ClickMic, ClickMic,
      RecResult (segment True ''one''), RecEnd 2000 2000]"

definition raceUntilRecording :: "event list" where
  "raceUntilRecording = raceUntilSent @ [MediaSettled Started]"

definition raceUntilSentAgain :: "event list" where
  "raceUntilSentAgain =
     raceUntilRecording @ [RecResult (segment True ''two''), RecEnd 2500 2500]"

definition raceUntilReply :: "event list" where
  "raceUntilReply =
     raceUntilSentAgain @ [BackendSettled (Responded (js ''ok'')) 3000 3000 False]"

definition raceBothFail :: "event list" where
  "raceBothFail =
     raceUntilSentAgain @
     [BackendSettled fetchFailed 3000 3000 False, BackendSettled fetchFailed 3000 3000 False]"

section \<open>Frame lemmas\<close>

lemma speakText_frame [simp]:
  "chat (speakText e sp t s) = chat s"
  "messages (speakText e sp t s) = messages s"
  "isRecording (speakText e sp t s) = isRecording s"
  "isInitialized (speakText e sp t s) = isInitialized s"
  "handlers (speakText e sp t s) = handlers s"
  "userTranscriptRef (speakText e sp t s) = userTranscriptRef s"
  "interimTranscript (speakText e sp t s) = interimTranscript s"
  "pendingToggles (speakText e sp t s) = pendingToggles s"
  "pendingRequests (speakText e sp t s) = pendingRequests s"
  "isLoadingAI (speakText e sp t s) = isLoadingAI s"
  "isAISpeaking (speakText e sp t s) = isAISpeaking s"
  "conversationStarted (speakText e sp t s) = conversationStarted s"
  "apiKeyMissing (speakText e sp t s) = apiKeyMissing s"
  by (simp_all add: speakText_def Let_def)

lemma spoken_append [simp]: "spoken (xs @ ys) = spoken xs @ spoken ys"
  by (induction xs rule: spoken.induct) simp_all

lemma sentTexts_append [simp]: "sentTexts (xs @ ys) = sentTexts xs @ sentTexts ys"
  by (induction xs rule: sentTexts.induct) simp_all

lemma speakText_spoken:
  "spoken (trace (speakText e sp t s)) =
     spoken (trace s) @ (if hasSpeechSynthesis e then [t] else [])"
  by (simp add: speakText_def Let_def)

lemma speakText_sentTexts [simp]:
  "sentTexts (trace (speakText e sp t s)) = sentTexts (trace s)"
  by (simp add: speakText_def Let_def)

lemma speakText_error:
  "error (speakText e sp t s) =
     (if hasSpeechSynthesis e then error s
      else Some (js ''Text-to-Speech not supported in this browser.''))"
  by (simp add: speakText_def Let_def)

lemma onresult_frame [simp]:
  "chat (recognition_onresult ev s) = chat s"
  "messages (recognition_onresult ev s) = messages s"
  "trace (recognition_onresult ev s) = trace s"
  "isInitialized (recognition_onresult ev s) = isInitialized s"
  "isRecording (recognition_onresult ev s) = isRecording s"
  "handlers (recognition_onresult ev s) = handlers s"
  "pendingToggles (recognition_onresult ev s) = pendingToggles s"
  by (simp_all add: recognition_onresult_def split: option.splits prod.splits)

section \<open>The invariant\<close>

lemma wf_ClickStart: "wf e s \<Longrightarrow> wf e (dispatch e (ClickStart sp) s)"
  by (simp add: dispatch_def Let_def handleStartConversation_def wf_def
      split: view.splits list.splits)

lemma wf_ClickMic: "wf e s \<Longrightarrow> wf e (dispatch e ClickMic s)"
  by (auto simp add: dispatch_def Let_def handleToggleRecording_def recognitionEffect_def
      render_def wf_def split: view.splits)

lemma wf_MediaSettled: "wf e s \<Longrightarrow> wf e (dispatch e (MediaSettled out) s)"
  by (cases out)
     (auto simp add: dispatch_def Let_def handleToggleRecording_resume_def toggleCatch_def
        recognitionEffect_def wf_def)

lemma wf_RecResult: "wf e s \<Longrightarrow> wf e (dispatch e (RecResult ev) s)"
  by (auto simp add: dispatch_def Let_def wf_def split: option.splits)

lemma wf_RecError: "wf e s \<Longrightarrow> wf e (dispatch e (RecError c) s)"
  by (auto simp add: dispatch_def Let_def recognition_onerror_def recognitionEffect_def wf_def
      split: option.splits)

lemma wf_RecEnd: "wf e s \<Longrightarrow> wf e (dispatch e (RecEnd now date) s)"
  by (auto simp add: dispatch_def Let_def recognition_onend_def processAndSendTranscript_def
      recognitionEffect_def wf_def split: option.splits)

lemma wf_BackendSettled: "wf e s \<Longrightarrow> wf e (dispatch e (BackendSettled out now date sp) s)"
  by (auto simp add: dispatch_def Let_def processAndSendTranscript_resume_def wf_def
      split: sum.splits)

lemma wf_Utt:
  "wf e s \<Longrightarrow> wf e (dispatch e UttStart s)"
  "wf e s \<Longrightarrow> wf e (dispatch e UttEnd s)"
  "wf e s \<Longrightarrow> wf e (dispatch e (UttError c) s)"
  by (auto simp add: dispatch_def Let_def utterance_onstart_def utterance_onend_def
      utterance_onerror_def wf_def)

lemma wf_dispatch: "wf e s \<Longrightarrow> wf e (dispatch e ev s)"
  by (cases ev)
     (simp_all only: wf_ClickStart wf_ClickMic wf_MediaSettled wf_RecResult wf_RecError
        wf_RecEnd wf_BackendSettled wf_Utt)

lemma wf_boot: "wf e (boot e out now date)"
  by (auto simp: wf_def boot_def mountEffect_def recognitionEffect_def initialState_def
      createChatSession_def Let_def split: sum.splits create_outcome.splits)

lemma wf_run: "wf e s \<Longrightarrow> wf e (run e evs s)"
  by (induction evs arbitrary: s) (simp_all add: wf_dispatch)

lemma run_append: "run e (xs @ ys) s = run e ys (run e xs s)"
  by (induction xs arbitrary: s) simp_all



section \<open>Accumulating and sending a transcript\<close>

lemma onresult_loop_wellformed:
  "list_all (\<lambda>r. alternatives r \<noteq> []) rs \<Longrightarrow>
   onresult_loop rs (f, i) =
     Some (f @ concat (map (\<lambda>seg. seg @ js '' '') (map firstTranscript (filter isFinal rs))),
           i @ concat (map firstTranscript (filter (\<lambda>r. \<not> isFinal r) rs)))"
  by (induction rs arbitrary: f i) (auto simp: firstTranscript_def split: list.splits)

lemma onresult_ref:
  "wellFormedEvent ev \<Longrightarrow>
   userTranscriptRef (recognition_onresult ev s) =
     userTranscriptRef s @ concat (map (\<lambda>seg. seg @ js '' '') (finalSegments ev))"
  by (simp add: recognition_onresult_def wellFormedEvent_def finalSegments_def
      onresult_loop_wellformed)

lemma session_RecResult:
  assumes "handlers s \<noteq> None" "wellFormedEvent r"
  shows "userTranscriptRef (dispatch e (RecResult r) s) =
           userTranscriptRef s @ concat (map (\<lambda>seg. seg @ js '' '') (finalSegments r))
         \<and> messages (dispatch e (RecResult r) s) = messages s
         \<and> sentTexts (trace (dispatch e (RecResult r) s)) = sentTexts (trace s)
         \<and> handlers (dispatch e (RecResult r) s) \<noteq> None"
  using assms by (auto simp: dispatch_def Let_def onresult_ref)

lemma toggle_frame [simp]:
  "userTranscriptRef (handleToggleRecording e s) = userTranscriptRef s"
  "messages (handleToggleRecording e s) = messages s"
  "sentTexts (trace (handleToggleRecording e s)) = sentTexts (trace s)"
  "handlers (handleToggleRecording e s) = handlers s"
  "chat (handleToggleRecording e s) = chat s"
  by (simp_all add: handleToggleRecording_def Let_def)

lemma effect_frame [simp]:
  "userTranscriptRef (recognitionEffect e s) = userTranscriptRef s"
  "messages (recognitionEffect e s) = messages s"
  "trace (recognitionEffect e s) = trace s"
  by (simp_all add: recognitionEffect_def)


lemma dispatch_frame [simp]:
  "chat (dispatch e ev s) = chat (handle e ev s)"
  "messages (dispatch e ev s) = messages (handle e ev s)"
  "isRecording (dispatch e ev s) = isRecording (handle e ev s)"
  "interimTranscript (dispatch e ev s) = interimTranscript (handle e ev s)"
  "userTranscriptRef (dispatch e ev s) = userTranscriptRef (handle e ev s)"
  "isLoadingAI (dispatch e ev s) = isLoadingAI (handle e ev s)"
  "isAISpeaking (dispatch e ev s) = isAISpeaking (handle e ev s)"
  "error (dispatch e ev s) = error (handle e ev s)"
  "isInitialized (dispatch e ev s) = isInitialized (handle e ev s)"
  "apiKeyMissing (dispatch e ev s) = apiKeyMissing (handle e ev s)"
  "conversationStarted (dispatch e ev s) = conversationStarted (handle e ev s)"
  "pendingRequests (dispatch e ev s) = pendingRequests (handle e ev s)"
  "pendingToggles (dispatch e ev s) = pendingToggles (handle e ev s)"
  "utterances (dispatch e ev s) = utterances (handle e ev s)"
  "trace (dispatch e ev s) = trace (handle e ev s)"
  by (simp_all add: dispatch_def Let_def recognitionEffect_def)

lemma dispatch_handlers:
  "handlers (handle e ev s) \<noteq> None \<Longrightarrow> handlers (dispatch e ev s) \<noteq> None"
  by (simp add: dispatch_def Let_def recognitionEffect_def)

lemma session_ClickMic:
  assumes "handlers s \<noteq> None"
  shows "userTranscriptRef (dispatch e ClickMic s) = userTranscriptRef s
         \<and> messages (dispatch e ClickMic s) = messages s
         \<and> sentTexts (trace (dispatch e ClickMic s)) = sentTexts (trace s)
         \<and> handlers (dispatch e ClickMic s) \<noteq> None"
proof -
  have "handle e ClickMic s = s \<or> handle e ClickMic s = handleToggleRecording e s"
    by (simp split: view.splits)
  then show ?thesis
  proof
    assume h: "handle e ClickMic s = s"
    then have "handlers (handle e ClickMic s) \<noteq> None" using assms by simp
    then show ?thesis using h by (simp add: dispatch_handlers del: handle.simps)
  next
    assume h: "handle e ClickMic s = handleToggleRecording e s"
    then have "handlers (handle e ClickMic s) \<noteq> None" using assms by simp
    then show ?thesis using h by (simp add: dispatch_handlers del: handle.simps)
  qed
qed

lemma session_step:
  assumes "handlers s \<noteq> None" "sessionEvent ev"
  shows "userTranscriptRef (dispatch e ev s) =
           userTranscriptRef s @ concat (map (\<lambda>seg. seg @ js '' '') (eventFinals ev))
         \<and> messages (dispatch e ev s) = messages s
         \<and> sentTexts (trace (dispatch e ev s)) = sentTexts (trace s)
         \<and> handlers (dispatch e ev s) \<noteq> None"
proof (cases ev)
  case (RecResult r)
  with assms session_RecResult [of s r e] show ?thesis by simp
next
  case ClickMic
  with assms session_ClickMic [of s e] show ?thesis by simp
qed (use assms in simp_all)

lemma session_run:
  assumes "list_all sessionEvent evs" "handlers s \<noteq> None"
  shows "userTranscriptRef (run e evs s) =
           userTranscriptRef s @
           concat (map (\<lambda>seg. seg @ js '' '') (concat (map eventFinals evs)))
         \<and> messages (run e evs s) = messages s
         \<and> sentTexts (trace (run e evs s)) = sentTexts (trace s)
         \<and> handlers (run e evs s) \<noteq> None"
  using assms
proof (induction evs arbitrary: s)
  case Nil
  then show ?case by simp
next
  case (Cons ev evs)
  from Cons.prems have ev: "sessionEvent ev" and rest: "list_all sessionEvent evs"
    by simp_all
  note st = session_step [OF Cons.prems(2) ev, of e]
  then have "handlers (dispatch e ev s) \<noteq> None" by simp
  from Cons.IH [OF rest this] st show ?case
    by simp
qed


lemma session_start:
  assumes "wf e s" "0 < pendingToggles s"
  shows "userTranscriptRef (dispatch e (MediaSettled Started) s) = []
         \<and> messages (dispatch e (MediaSettled Started) s) = messages s
         \<and> sentTexts (trace (dispatch e (MediaSettled Started) s)) = sentTexts (trace s)
         \<and> handlers (dispatch e (MediaSettled Started) s) \<noteq> None"
proof -
  have rec: "recognition e" and init: "isInitialized s"
    using assms by (simp_all add: wf_def)
  have "handlers (dispatch e (MediaSettled Started) s) \<noteq> None"
  proof (cases "isRecording s")
    case True
    then have "handlers s \<noteq> None" using assms(1) by (simp add: wf_def)
    then show ?thesis
      using assms(2) by (intro dispatch_handlers) (simp add: handleToggleRecording_resume_def)
  next
    case False
    then show ?thesis
      using assms(2) rec
      by (simp add: dispatch_def Let_def handleToggleRecording_resume_def recognitionEffect_def)
  qed
  then show ?thesis
    using assms(2) by (simp add: handleToggleRecording_resume_def)
qed


lemma onend_sends:
  assumes "cl_isRecording cl" "cl_chat cl = Some c" "apiKey e"
  shows "sentTexts (trace (recognition_onend e cl now date s)) =
           sentTexts (trace s) @
           (if trim (userTranscriptRef s) = [] then [] else [trim (userTranscriptRef s)])"
    and "messages (recognition_onend e cl now date s) =
           messages s @
           (if trim (userTranscriptRef s) = [] then []
            else [\<lparr> id' = toString now, text' = trim (userTranscriptRef s),
                     sender = USER, timestamp = date \<rparr>])"
  using assms
  by (simp_all add: recognition_onend_def processAndSendTranscript_def Let_def)

lemma session_end:
  assumes "wf e s" "handlers s \<noteq> None"
  shows "sentTexts (trace (dispatch e (RecEnd now date) s)) =
           sentTexts (trace s) @
           (if trim (userTranscriptRef s) = [] then [] else [trim (userTranscriptRef s)])
         \<and> messages (dispatch e (RecEnd now date) s) =
           messages s @
           (if trim (userTranscriptRef s) = [] then []
            else [\<lparr> id' = toString now, text' = trim (userTranscriptRef s),
                     sender = USER, timestamp = date \<rparr>])"
proof -
  from assms(2) obtain cl where cl: "handlers s = Some cl" by auto
  with assms(1) have a: "cl_isRecording cl" "cl_chat cl = chat s" "isInitialized s"
    by (simp_all add: wf_def)
  with assms(1) obtain c where c: "cl_chat cl = Some c" and k: "apiKey e"
    by (auto simp: wf_def)
  show ?thesis
    using cl onend_sends [OF a(1) c k, of now date s] by simp
qed


text \<open>
  Claim C1, as the code has it. A recording starts when the suspended toggle resumes with
  the microphone granted. Whatever well-formed result events and microphone clicks
  follow, the end event sends to the backend the trimmed accumulation of the finalized
  segments in arrival order, each followed by one space (a segment that is not final adds
  nothing), and logs it as the user's Turn; when that text is empty nothing is sent.
\<close>

theorem C1_sent_text:
  assumes "0 < pendingToggles (run e history (boot e out n d))"
      and "list_all sessionEvent evs"
  shows "let s = run e history (boot e out n d);
             txt = trim (concat (map (\<lambda>seg. seg @ js '' '') (concat (map eventFinals evs))));
             s' = run e (MediaSettled Started # evs @ [RecEnd now date]) s
         in sentTexts (trace s') = sentTexts (trace s) @ (if txt = [] then [] else [txt])
            \<and> messages s' =
                messages s @
                (if txt = [] then []
                 else [\<lparr> id' = toString now, text' = txt, sender = USER, timestamp = date \<rparr>])"
proof -
  define s where "s = run e history (boot e out n d)"
  define s1 where "s1 = dispatch e (MediaSettled Started) s"
  define s2 where "s2 = run e evs s1"
  have wf0: "wf e s" unfolding s_def by (simp add: wf_run wf_boot)
  have wf1: "wf e s1" unfolding s1_def using wf0 by (rule wf_dispatch)
  have wf2: "wf e s2" unfolding s2_def using wf1 by (rule wf_run)
  have pend: "0 < pendingToggles s" using assms(1) by (simp add: s_def)
  note a = session_start [OF wf0 pend, folded s1_def]
  then have h1: "handlers s1 \<noteq> None" by simp
  note b = session_run [OF assms(2) h1, of e, folded s2_def]
  then have h2: "handlers s2 \<noteq> None" by simp
  note c = session_end [OF wf2 h2, of now date]
  have s': "run e (MediaSettled Started # evs @ [RecEnd now date]) s
              = dispatch e (RecEnd now date) s2"
    by (simp add: run_append s1_def s2_def)
  have ref: "userTranscriptRef s2 =
               concat (map (\<lambda>seg. seg @ js '' '') (concat (map eventFinals evs)))"
    using a b by simp
  have "sentTexts (trace s2) = sentTexts (trace s)" "messages s2 = messages s"
    using a b by simp_all
  with c ref show ?thesis
    unfolding Let_def s' s_def [symmetric] by simp
qed


theorem C1_sent_text_witness:
  "0 < pendingToggles (run fullBrowser [ClickStart False, ClickMic]
         (boot fullBrowser (Created (ChatSession 0)) 1000 1000))
   \<and> list_all sessionEvent helloEvents
   \<and> sentTexts (trace (run fullBrowser (MediaSettled Started # helloEvents @ [RecEnd 2000 2000])
         (run fullBrowser [ClickStart False, ClickMic]
            (boot fullBrowser (Created (ChatSession 0)) 1000 1000))))
       = [js ''Hello, how are you?'']"
proof -
  have h1: "0 < pendingToggles (run fullBrowser [ClickStart False, ClickMic]
         (boot fullBrowser (Created (ChatSession 0)) 1000 1000))"
    by code_simp
  have h2: "list_all sessionEvent helloEvents"
    by code_simp
  have t: "trim (concat (map (\<lambda>seg. seg @ js '' '') (concat (map eventFinals helloEvents))))
             = js ''Hello, how are you?''"
    by code_simp
  have ne: "js ''Hello, how are you?'' \<noteq> []"
    by (simp add: js_def)
  have p: "sentTexts (trace (run fullBrowser [ClickStart False, ClickMic]
         (boot fullBrowser (Created (ChatSession 0)) 1000 1000))) = []"
    by code_simp
  from C1_sent_text [OF h1 h2, of 2000 2000] t ne p h1 h2
  show ?thesis
    by (simp add: Let_def)
qed

text \<open>
  Two finalized segments \<open>Hello\<close> and \<open>world\<close> are sent as \<open>Hello world\<close>, which
  is not their trimmed concatenation.
\<close>

theorem C1_counterexample:
  "sentTexts (trace (run fullBrowser
       [MediaSettled Started, RecResult (segment True ''Hello''),
        RecResult (segment True ''world''), RecEnd 2000 2000]
       (run fullBrowser [ClickStart False, ClickMic]
          (boot fullBrowser (Created (ChatSession 0)) 1000 1000))))
     = [js ''Hello world'']
   \<and> trim (concat (finalSegments (segment True ''Hello'') @ finalSegments (segment True ''world'')))
     = js ''Helloworld''
   \<and> js ''Hello world'' \<noteq> js ''Helloworld''"
  by code_simp

section \<open>The busy flag gates the microphone\<close>

text \<open>
  While \<open>isLoadingAI\<close> is set the microphone button is rendered disabled, so a click on
  it runs no handler: the state, and with it the calls made, stay as they are. This holds
  in every state, reachable or not.
\<close>

lemma mic_gated_while_loading:
  assumes "isLoadingAI s"
  shows "dispatch e ClickMic s = s"
  using assms by (simp add: dispatch_def Let_def render_def split: view.splits)

lemma mic_gated_example:
  "isLoadingAI (awaitingReply fullBrowser)
   \<and> dispatch fullBrowser ClickMic (awaitingReply fullBrowser) = awaitingReply fullBrowser"
proof -
  have h: "isLoadingAI (awaitingReply fullBrowser)"
    by code_simp
  from mic_gated_while_loading [OF h] h show ?thesis
    by simp
qed

section \<open>Requests outstanding at once\<close>

text \<open>
  Claim C2 asks that at most one backend request be outstanding at any time, and that no
  recording start while one is pending. The program does not keep this. The gate is
  tested when the click happens, and \<open>handleToggleRecording\<close> waits for
  \<open>getUserMedia\<close> before it starts the recognition. The user stops a recording
  and clicks again before the end event: the second click passes the gate and waits. The
  end event sends the first request. The toggle then resumes and starts a recording while
  that request is pending, and the end of this recording sends a second request while the
  first is still outstanding. When the first reply arrives the busy flag is cleared although
  the second request is pending, and a click on the microphone is accepted.
\<close>

theorem C2_overlapping_requests:
  "isLoadingAI (run fullBrowser raceUntilSent (greeted fullBrowser))
   \<and> pendingRequests (run fullBrowser raceUntilSent (greeted fullBrowser)) = 1
   \<and> isRecording (run fullBrowser raceUntilRecording (greeted fullBrowser))
   \<and> isLoadingAI (run fullBrowser raceUntilRecording (greeted fullBrowser))
   \<and> pendingRequests (run fullBrowser raceUntilSentAgain (greeted fullBrowser)) = 2
   \<and> sentTexts (trace (run fullBrowser raceUntilSentAgain (greeted fullBrowser)))
     = [js ''one'', js ''two'']
   \<and> pendingRequests (run fullBrowser raceUntilReply (greeted fullBrowser)) = 1
   \<and> \<not> isLoadingAI (run fullBrowser raceUntilReply (greeted fullBrowser))
   \<and> pendingToggles (run fullBrowser raceUntilReply (greeted fullBrowser)) = 0
   \<and> pendingToggles (dispatch fullBrowser ClickMic
         (run fullBrowser raceUntilReply (greeted fullBrowser))) = 1"
  by code_simp

section \<open>Ending a recording with nothing to send\<close>

text \<open>
  In every state the program reaches, when the accumulated transcript trims to the empty
  string, the end event of the recognition makes no call at all (so none to the backend),
  leaves the log, the pending requests and the busy and speaking flags as they are, and
  leaves the program not recording with both parts of the accumulator empty.
\<close>

lemma empty_transcript_end:
  assumes "trim (userTranscriptRef (run e history (boot e out n d))) = []"
  shows "let s = run e history (boot e out n d);
             s' = dispatch e (RecEnd now date) s
         in messages s' = messages s \<and> trace s' = trace s
            \<and> pendingRequests s' = pendingRequests s
            \<and> isLoadingAI s' = isLoadingAI s \<and> isAISpeaking s' = isAISpeaking s
            \<and> \<not> isRecording s'
            \<and> userTranscriptRef s' = [] \<and> interimTranscript s' = []"
proof -
  define s where "s = run e history (boot e out n d)"
  have wf0: "wf e s" unfolding s_def by (simp add: wf_run wf_boot)
  have empty: "trim (userTranscriptRef s) = []" using assms by (simp add: s_def)
  have "messages (handle e (RecEnd now date) s) = messages s
        \<and> trace (handle e (RecEnd now date) s) = trace s
        \<and> pendingRequests (handle e (RecEnd now date) s) = pendingRequests s
        \<and> isLoadingAI (handle e (RecEnd now date) s) = isLoadingAI s
        \<and> isAISpeaking (handle e (RecEnd now date) s) = isAISpeaking s
        \<and> \<not> isRecording (handle e (RecEnd now date) s)
        \<and> userTranscriptRef (handle e (RecEnd now date) s) = []
        \<and> interimTranscript (handle e (RecEnd now date) s) = []"
  proof (cases "handlers s")
    case None
    with wf0 show ?thesis by (auto simp: wf_def)
  next
    case (Some cl)
    with wf0 have "cl_isRecording cl" by (simp add: wf_def)
    with Some empty show ?thesis
      by (simp add: recognition_onend_def processAndSendTranscript_def Let_def
          split: option.splits)
  qed
  then show ?thesis
    unfolding Let_def s_def [symmetric] by (simp del: handle.simps)
qed

lemma empty_transcript_example:
  "trim (userTranscriptRef
      (run fullBrowser blankHistory (boot fullBrowser (Created (ChatSession 0)) 1000 1000))) = []
   \<and> isRecording (run fullBrowser blankHistory (boot fullBrowser (Created (ChatSession 0)) 1000 1000))
   \<and> trace (dispatch fullBrowser (RecEnd 2000 2000)
        (run fullBrowser blankHistory (boot fullBrowser (Created (ChatSession 0)) 1000 1000)))
     = trace (run fullBrowser blankHistory (boot fullBrowser (Created (ChatSession 0)) 1000 1000))
   \<and> \<not> isRecording (dispatch fullBrowser (RecEnd 2000 2000)
        (run fullBrowser blankHistory (boot fullBrowser (Created (ChatSession 0)) 1000 1000)))"
proof -
  have h: "trim (userTranscriptRef
      (run fullBrowser blankHistory (boot fullBrowser (Created (ChatSession 0)) 1000 1000))) = []"
    by code_simp
  have r: "isRecording
      (run fullBrowser blankHistory (boot fullBrowser (Created (ChatSession 0)) 1000 1000))"
    by code_simp
  from empty_transcript_end [OF h, of 2000 2000] h r show ?thesis
    by (simp add: Let_def)
qed

text \<open>
  Claim C4 asks that ending a recording whose transcript trims to the empty string send
  nothing, log nothing, reset the accumulator and leave the machine idle. The program
  sends and logs nothing and resets the accumulator, but it does not always end idle: the
  end event touches neither the speaking nor the busy flag. A recording that was started
  while the greeting was still queued ends with \<open>isAISpeaking\<close> set, and a recording that
  was started while a request was pending ends with \<open>isLoadingAI\<close> set and the request
  outstanding.
\<close>

theorem C4_not_idle:
  "trim (userTranscriptRef
      (run fullBrowser [ClickMic, MediaSettled Started, UttStart] (started fullBrowser))) = []
   \<and> isRecording
        (run fullBrowser [ClickMic, MediaSettled Started, UttStart] (started fullBrowser))
   \<and> \<not> isRecording (dispatch fullBrowser (RecEnd 2000 2000)
        (run fullBrowser [ClickMic, MediaSettled Started, UttStart] (started fullBrowser)))
   \<and> isAISpeaking (dispatch fullBrowser (RecEnd 2000 2000)
        (run fullBrowser [ClickMic, MediaSettled Started, UttStart] (started fullBrowser)))
   \<and> trim (userTranscriptRef (run fullBrowser raceUntilRecording (greeted fullBrowser))) = []
   \<and> isRecording (run fullBrowser raceUntilRecording (greeted fullBrowser))
   \<and> \<not> isRecording (dispatch fullBrowser (RecEnd 2500 2500)
        (run fullBrowser raceUntilRecording (greeted fullBrowser)))
   \<and> isLoadingAI (dispatch fullBrowser (RecEnd 2500 2500)
        (run fullBrowser raceUntilRecording (greeted fullBrowser)))
   \<and> pendingRequests (dispatch fullBrowser (RecEnd 2500 2500)
        (run fullBrowser raceUntilRecording (greeted fullBrowser))) = 1"
  by code_simp

section \<open>The missing credential\<close>

lemma terminal_dispatch:
  assumes "apiKeyMissing s" "handlers s = None" "pendingRequests s = 0"
    "pendingToggles s = 0" "utterances s = 0"
  shows "dispatch e ev s = s"
  using assms by (cases ev) (simp_all add: dispatch_def render_def)

lemma blank_dispatch:
  assumes "loadFailed s" "handlers s = None" "pendingRequests s = 0"
    "pendingToggles s = 0" "utterances s = 0"
  shows "dispatch e ev s = s"
  using assms by (cases ev) (simp_all add: dispatch_def render_def)

lemma blank_run:
  assumes "loadFailed s" "handlers s = None" "pendingRequests s = 0"
    "pendingToggles s = 0" "utterances s = 0"
  shows "run e evs s = s"
  using assms by (induction evs) (simp_all add: blank_dispatch)

lemma terminal_run:
  assumes "apiKeyMissing s" "handlers s = None" "pendingRequests s = 0"
    "pendingToggles s = 0" "utterances s = 0"
  shows "run e evs s = s"
  using assms by (induction evs) (simp_all add: terminal_dispatch)

text \<open>
  Where \<open>App\<close> is mounted with a key that is defined but empty, the mount effect leaves
  the program showing the configuration-error view, which has no controls; no session
  exists and \<open>ai.chats.create\<close> was not called; and no sequence of events changes the
  state.
\<close>

lemma empty_key_view:
  assumes "API_KEY e = Some []"
  shows "render (boot e out now date) =
           ConfigurationError (Some (js
             ''Critical Error: API_KEY is not configured. The application cannot function.''))
         \<and> chat (boot e out now date) = None
         \<and> trace (boot e out now date) = []
         \<and> (\<forall>evs. run e evs (boot e out now date) = boot e out now date)"
proof -
  have b: "boot e out now date =
             initialState\<lparr> error := Some (js
               ''Critical Error: API_KEY is not configured. The application cannot function.''),
               apiKeyMissing := True, isInitialized := False \<rparr>"
    using assms
    by (simp add: boot_def clientConstructorThrows_def apiKey_def mountEffect_def
        recognitionEffect_def initialState_def)
  have "run e evs (boot e out now date) = boot e out now date" for evs
    by (rule terminal_run) (simp_all add: b initialState_def)
  then show ?thesis
    by (simp add: b render_def initialState_def)
qed

lemma empty_key_example:
  "API_KEY emptyKeyBrowser = Some []
   \<and> render (boot emptyKeyBrowser (Created (ChatSession 0)) 1000 1000) =
       ConfigurationError (Some (js
         ''Critical Error: API_KEY is not configured. The application cannot function.''))
   \<and> run emptyKeyBrowser
        [ClickStart False, ClickMic, MediaSettled Started, RecEnd 2000 2000, UttStart]
        (boot emptyKeyBrowser (Created (ChatSession 0)) 1000 1000)
     = boot emptyKeyBrowser (Created (ChatSession 0)) 1000 1000"
proof -
  have h: "API_KEY emptyKeyBrowser = Some []"
    by (simp add: emptyKeyBrowser_def)
  from empty_key_view [OF h, of "Created (ChatSession 0)" 1000 1000] h show ?thesis
    by (simp del: run.simps)
qed

text \<open>
  Claim C7 asks that, with the credential absent at application start, the page show the
  configuration-error view and nothing else. The program does not do so when the key is
  undefined: the constructor call at module level throws while \<open>geminiService.ts\<close> is
  imported, \<open>App\<close> is never mounted, its check of the key never runs, and the page shows
  nothing at all, neither the view nor its error text, whatever events follow.
\<close>

theorem C7_nothing_rendered:
  assumes "API_KEY e = None"
  shows "boot e out now date = initialState\<lparr> loadFailed := True \<rparr>
         \<and> render (boot e out now date) = NothingRendered
         \<and> \<not> apiKeyMissing (boot e out now date)
         \<and> error (boot e out now date) = None
         \<and> (\<forall>evs. run e evs (boot e out now date) = boot e out now date)"
proof -
  have b: "boot e out now date = initialState\<lparr> loadFailed := True \<rparr>"
    using assms by (simp add: boot_def clientConstructorThrows_def)
  have "run e evs (boot e out now date) = boot e out now date" for evs
    by (rule blank_run) (simp_all add: b initialState_def)
  then show ?thesis
    by (simp add: b render_def initialState_def)
qed

theorem C7_nothing_rendered_witness:
  "API_KEY unsetKeyBrowser = None
   \<and> render (boot unsetKeyBrowser (Created (ChatSession 0)) 1000 1000) = NothingRendered
   \<and> error (boot unsetKeyBrowser (Created (ChatSession 0)) 1000 1000) = None
   \<and> run unsetKeyBrowser [ClickStart False, ClickMic, UttStart]
        (boot unsetKeyBrowser (Created (ChatSession 0)) 1000 1000)
     = boot unsetKeyBrowser (Created (ChatSession 0)) 1000 1000"
proof -
  have h: "API_KEY unsetKeyBrowser = None"
    by (simp add: unsetKeyBrowser_def)
  note t = C7_nothing_rendered [OF h, of "Created (ChatSession 0)" 1000 1000]
  from t have r: "render (boot unsetKeyBrowser (Created (ChatSession 0)) 1000 1000) = NothingRendered"
    by blast
  from t have e: "error (boot unsetKeyBrowser (Created (ChatSession 0)) 1000 1000) = None"
    by blast
  from t have "run unsetKeyBrowser [ClickStart False, ClickMic, UttStart]
        (boot unsetKeyBrowser (Created (ChatSession 0)) 1000 1000)
     = boot unsetKeyBrowser (Created (ChatSession 0)) 1000 1000"
    by blast
  with h r e show ?thesis
    by (simp del: run.simps)
qed

section \<open>The log only grows\<close>

lemma handle_appends: "\<exists>new. messages (handle e ev s) = messages s @ new"
  by (cases ev)
     (simp_all add: handleStartConversation_def handleToggleRecording_def
        handleToggleRecording_resume_def toggleCatch_def recognition_onresult_def
        recognition_onerror_def recognition_onend_def processAndSendTranscript_def
        processAndSendTranscript_resume_def utterance_onstart_def utterance_onend_def
        utterance_onerror_def Let_def
        split: view.splits option.splits list.splits mic_outcome.splits sum.splits prod.splits)

text \<open>
  Claim C8. Whatever events are run from whatever state, the log afterwards is the log
  before with Turns added at its end; the mount effect, which runs once on the empty
  initial log, adds at most the greeting.
\<close>

theorem C8_append_only:
  "(\<exists>new. messages (run e evs s) = messages s @ new)
   \<and> (\<exists>new. messages (boot e out now date) = messages initialState @ new \<and> length new \<le> 1)"
proof
  show "\<exists>new. messages (run e evs s) = messages s @ new"
  proof (induction evs arbitrary: s)
    case Nil
    show ?case by simp
  next
    case (Cons ev evs)
    from handle_appends obtain a where a: "messages (handle e ev s) = messages s @ a"
      by blast
    from Cons.IH obtain b where
      "messages (run e evs (dispatch e ev s)) = messages (dispatch e ev s) @ b"
      by blast
    with a show ?case by (simp del: handle.simps)
  qed
  show "\<exists>new. messages (boot e out now date) = messages initialState @ new \<and> length new \<le> 1"
    by (simp add: boot_def mountEffect_def recognitionEffect_def initialState_def Let_def
        split: sum.splits)
qed

section \<open>A failed backend call\<close>

lemma js_empty [simp]: "js t = [] \<longleftrightarrow> t = []"
  by (simp add: js_def)

lemma resume_failure:
  assumes "getAIChatResponse e out = Inl ex"
  shows "processAndSendTranscript_resume e out now date sp s =
           (speakText e sp fallbackMessage
              (s\<lparr> error := Some (js ''Error getting AI response: '' @ messageOrUnknown ex),
                   messages := messages s @
                     [\<lparr> id' = toString (now + 1), text' = fallbackMessage,
                        sender = AI, timestamp = date \<rparr>] \<rparr>))
           \<lparr> isLoadingAI := False, userTranscriptRef := [], interimTranscript := [] \<rparr>"
  using assms by (simp add: processAndSendTranscript_resume_def)

text \<open>
  Claim C5, as the code has it. When the awaited backend call fails, the suspended
  \<open>processAndSendTranscript\<close> appends exactly the fallback Turn, clears the busy flag
  and sends nothing again. Where the browser has speech synthesis the fallback text is
  handed to it once and the banner holds the failure; where it has none, \<open>speakText\<close>
  returns at its guard: nothing is spoken and the banner holds the text-to-speech message.
\<close>

theorem C5_backend_failure:
  assumes "0 < pendingRequests s"
      and "getAIChatResponse e out = Inl ex"
  shows "let s' = dispatch e (BackendSettled out now date sp) s
         in messages s' =
              messages s @ [\<lparr> id' = toString (now + 1), text' = fallbackMessage,
                              sender = AI, timestamp = date \<rparr>]
            \<and> spoken (trace s') =
                spoken (trace s) @ (if hasSpeechSynthesis e then [fallbackMessage] else [])
            \<and> error s' =
                Some (if hasSpeechSynthesis e
                      then js ''Error getting AI response: '' @ messageOrUnknown ex
                      else js ''Text-to-Speech not supported in this browser.'')
            \<and> \<not> isLoadingAI s'
            \<and> pendingRequests s' = pendingRequests s - 1
            \<and> sentTexts (trace s') = sentTexts (trace s)"
  using assms(1)
  by (simp add: Let_def resume_failure [OF assms(2)] speakText_spoken speakText_error)

theorem C5_backend_failure_witness:
  "0 < pendingRequests (awaitingReply fullBrowser)
   \<and> getAIChatResponse fullBrowser fetchFailed =
       Inl (ErrorObj (js ''Error'') (js ''Failed to get AI response: Failed to fetch''))
   \<and> spoken (trace (dispatch fullBrowser (BackendSettled fetchFailed 3000 3000 False)
        (awaitingReply fullBrowser)))
     = spoken (trace (awaitingReply fullBrowser)) @ [fallbackMessage]
   \<and> \<not> isLoadingAI (dispatch fullBrowser (BackendSettled fetchFailed 3000 3000 False)
        (awaitingReply fullBrowser))"
proof -
  have h1: "0 < pendingRequests (awaitingReply fullBrowser)"
    by code_simp
  have h2: "getAIChatResponse fullBrowser fetchFailed =
       Inl (ErrorObj (js ''Error'') (js ''Failed to get AI response: Failed to fetch''))"
    by code_simp
  have h3: "hasSpeechSynthesis fullBrowser"
    by (simp add: fullBrowser_def)
  from C5_backend_failure [OF h1 h2, of 3000 3000 False] h1 h2 h3 show ?thesis
    by (simp add: Let_def del: handle.simps)
qed

text \<open>
  In a browser without speech synthesis the fallback is logged but never spoken, and the
  banner does not show the backend failure.
\<close>

theorem C5_counterexample:
  "0 < pendingRequests (awaitingReply silentBrowser)
   \<and> spoken (trace (dispatch silentBrowser (BackendSettled fetchFailed 3000 3000 False)
        (awaitingReply silentBrowser))) = []
   \<and> error (dispatch silentBrowser (BackendSettled fetchFailed 3000 3000 False)
        (awaitingReply silentBrowser))
     = Some (js ''Text-to-Speech not supported in this browser.'')"
  by code_simp

text \<open>
  Claim C6, as the code has it. When \<open>chat.sendMessage\<close> rejects with an \<open>Error\<close>
  while a request is pending, the key being set and the browser having speech synthesis,
  the log gains the fallback Turn, whose text contains \<open>issue\<close>; the banner is
  \<open>Error getting AI response: Failed to get AI response: \<close> followed by the message of
  the error; the fallback is handed to speech synthesis; the start callback of the
  utterance sets \<open>isAISpeaking\<close> and its end callback clears it; \<open>isLoadingAI\<close> is
  false from the failure on; and none of these steps changes \<open>isRecording\<close>.
\<close>

theorem C6_network_error:
  assumes "0 < pendingRequests s" and "apiKey e" and "hasSpeechSynthesis e"
  shows "let s1 = dispatch e (BackendSettled (SendThrew (ErrorObj nm msg)) now date sp) s;
             s2 = dispatch e UttStart s1;
             s3 = dispatch e UttEnd s2
         in messages s1 =
              messages s @ [\<lparr> id' = toString (now + 1), text' = fallbackMessage,
                              sender = AI, timestamp = date \<rparr>]
            \<and> includes_js fallbackMessage (js ''issue'')
            \<and> error s1 =
                Some (js ''Error getting AI response: Failed to get AI response: '' @ msg)
            \<and> spoken (trace s1) = spoken (trace s) @ [fallbackMessage]
            \<and> \<not> isLoadingAI s1 \<and> isRecording s1 = isRecording s
            \<and> isAISpeaking s2 \<and> \<not> isLoadingAI s2 \<and> isRecording s2 = isRecording s
            \<and> \<not> isAISpeaking s3 \<and> \<not> isLoadingAI s3 \<and> isRecording s3 = isRecording s"
proof -
  have f: "getAIChatResponse e (SendThrew (ErrorObj nm msg)) =
             Inl (ErrorObj (js ''Error'') (js ''Failed to get AI response: '' @ msg))"
    using assms(2) by (simp add: getAIChatResponse_def)
  have m: "messageOrUnknown (ErrorObj (js ''Error'') (js ''Failed to get AI response: '' @ msg))
           = js ''Failed to get AI response: '' @ msg"
    by (simp add: js_def)
  have i: "includes_js fallbackMessage (js ''issue'')"
    by code_simp
  have j: "js ''Error getting AI response: '' @ js ''Failed to get AI response: '' @ msg
           = js ''Error getting AI response: Failed to get AI response: '' @ msg"
    by (simp add: js_def)
  have u: "utterances (speakText e sp t x) = Suc (utterances x)" for t x
    using assms(3) by (simp add: speakText_def Let_def)
  show ?thesis
    using assms i
    by (simp add: Let_def resume_failure [OF f] speakText_spoken speakText_error u m j
        utterance_onstart_def utterance_onend_def)
qed

theorem C6_network_error_witness:
  "0 < pendingRequests (awaitingReply fullBrowser) \<and> apiKey fullBrowser
   \<and> hasSpeechSynthesis fullBrowser
   \<and> error (dispatch fullBrowser (BackendSettled fetchFailed 3000 3000 False)
        (awaitingReply fullBrowser))
     = Some (js ''Error getting AI response: Failed to get AI response: Failed to fetch'')
   \<and> isAISpeaking (dispatch fullBrowser UttStart
        (dispatch fullBrowser (BackendSettled fetchFailed 3000 3000 False)
           (awaitingReply fullBrowser)))
   \<and> \<not> isAISpeaking (dispatch fullBrowser UttEnd (dispatch fullBrowser UttStart
        (dispatch fullBrowser (BackendSettled fetchFailed 3000 3000 False)
           (awaitingReply fullBrowser))))"
proof -
  have h1: "0 < pendingRequests (awaitingReply fullBrowser)"
    by code_simp
  have h2: "apiKey fullBrowser" "hasSpeechSynthesis fullBrowser"
    by code_simp+
  have j: "js ''Error getting AI response: Failed to get AI response: '' @ js ''Failed to fetch''
           = js ''Error getting AI response: Failed to get AI response: Failed to fetch''"
    by (simp add: js_def)
  from C6_network_error [OF h1 h2, of "js ''TypeError''" "js ''Failed to fetch''" 3000 3000 False]
    h1 h2 j
  show ?thesis
    by (simp add: Let_def fetchFailed_def del: handle.simps dispatch_frame)
qed

text \<open>
  A failed fetch gives a banner in which \<open>issue\<close> does not occur.
\<close>

theorem C6_counterexample:
  "error (dispatch fullBrowser (BackendSettled fetchFailed 3000 3000 False)
        (awaitingReply fullBrowser))
     = Some (js ''Error getting AI response: Failed to get AI response: Failed to fetch'')
   \<and> \<not> includes_js (js ''Error getting AI response: Failed to get AI response: Failed to fetch'')
         (js ''issue'')"
  by code_simp

section \<open>Starting the conversation\<close>

lemma started_handle: "conversationStarted s \<Longrightarrow> conversationStarted (handle e ev s)"
  by (cases ev)
     (simp_all add: handleStartConversation_def handleToggleRecording_def
        handleToggleRecording_resume_def toggleCatch_def recognition_onresult_def
        recognition_onerror_def recognition_onend_def processAndSendTranscript_def
        processAndSendTranscript_resume_def utterance_onstart_def utterance_onend_def
        utterance_onerror_def Let_def
        split: view.splits option.splits list.splits mic_outcome.splits sum.splits prod.splits)

lemma started_run: "conversationStarted s \<Longrightarrow> conversationStarted (run e evs s)"
  by (induction evs arbitrary: s) (simp_all add: started_handle del: handle.simps)

lemma start_again:
  "conversationStarted t \<Longrightarrow> handleStartConversation e sp t = t\<lparr> error := None \<rparr>"
  by (simp add: handleStartConversation_def split: list.splits)

text \<open>
  Claim C10, as the code has it. The first call of \<open>handleStartConversation\<close>, with the
  greeting as first Turn of the log, hands the greeting to \<open>speakText\<close>, which speaks
  it where the browser has speech synthesis and speaks nothing where it has none; it
  leaves the conversation started and the banner clear. Every later call, after whatever
  events, only clears the banner: it speaks nothing and changes nothing else.
\<close>

theorem C10_greeting_once:
  assumes "messages s = m # ms" and "sender m = AI" and "\<not> conversationStarted s"
  shows "spoken (trace (handleStartConversation e sp s)) =
           spoken (trace s) @ (if hasSpeechSynthesis e then [text' m] else [])
         \<and> conversationStarted (handleStartConversation e sp s)
         \<and> error (handleStartConversation e sp s) = None
         \<and> (\<forall>evs sp'.
               handleStartConversation e sp' (run e evs (handleStartConversation e sp s)) =
               (run e evs (handleStartConversation e sp s))\<lparr> error := None \<rparr>)"
proof -
  have c: "conversationStarted (handleStartConversation e sp s)"
    by (simp add: handleStartConversation_def)
  have "handleStartConversation e sp' (run e evs (handleStartConversation e sp s)) =
          (run e evs (handleStartConversation e sp s))\<lparr> error := None \<rparr>" for evs sp'
    using c by (intro start_again started_run)
  then show ?thesis
    using assms c by (simp add: handleStartConversation_def speakText_spoken)
qed

theorem C10_greeting_once_witness:
  "messages (boot fullBrowser (Created (ChatSession 0)) 1000 1000) =
     \<lparr> id' = toString 1000, text' = initialMessageText, sender = AI, timestamp = 1000 \<rparr> # []
   \<and> \<not> conversationStarted (boot fullBrowser (Created (ChatSession 0)) 1000 1000)
   \<and> spoken (trace (handleStartConversation fullBrowser False
         (boot fullBrowser (Created (ChatSession 0)) 1000 1000))) = [initialMessageText]
   \<and> handleStartConversation fullBrowser False
        (handleStartConversation fullBrowser False
           (boot fullBrowser (Created (ChatSession 0)) 1000 1000))
     = handleStartConversation fullBrowser False
         (boot fullBrowser (Created (ChatSession 0)) 1000 1000)"
proof -
  let ?b = "boot fullBrowser (Created (ChatSession 0)) 1000 1000"
  let ?m = "\<lparr> id' = toString 1000, text' = initialMessageText, sender = AI, timestamp = 1000 \<rparr>"
  have h1: "messages ?b = ?m # []"
    by (simp add: boot_def clientConstructorThrows_def apiKey_def js_def mountEffect_def
        createChatSession_def recognitionEffect_def fullBrowser_def initialState_def)
  have h2: "sender ?m = AI" by simp
  have h3: "\<not> conversationStarted ?b"
    by (simp add: boot_def clientConstructorThrows_def apiKey_def js_def mountEffect_def
        createChatSession_def recognitionEffect_def fullBrowser_def initialState_def)
  have h4: "hasSpeechSynthesis fullBrowser" by (simp add: fullBrowser_def)
  have h5: "spoken (trace ?b) = []"
    by (simp add: boot_def clientConstructorThrows_def apiKey_def js_def mountEffect_def
        createChatSession_def recognitionEffect_def fullBrowser_def initialState_def)
  note t = C10_greeting_once [OF h1 h2 h3, of fullBrowser False]
  from t have a: "spoken (trace (handleStartConversation fullBrowser False ?b)) = [initialMessageText]"
    using h4 h5 by simp
  from t have e: "error (handleStartConversation fullBrowser False ?b) = None"
    by simp
  from t have "handleStartConversation fullBrowser False
        (run fullBrowser [] (handleStartConversation fullBrowser False ?b))
     = (run fullBrowser [] (handleStartConversation fullBrowser False ?b))\<lparr> error := None \<rparr>"
    by blast
  with e have b: "handleStartConversation fullBrowser False
        (handleStartConversation fullBrowser False ?b)
     = handleStartConversation fullBrowser False ?b"
    by simp
  from h1 h3 a b show ?thesis by simp
qed

text \<open>
  In a browser without speech synthesis the first call speaks nothing.
\<close>

theorem C10_counterexample:
  "messages (boot silentBrowser (Created (ChatSession 0)) 1000 1000) =
     [\<lparr> id' = toString 1000, text' = initialMessageText, sender = AI, timestamp = 1000 \<rparr>]
   \<and> \<not> conversationStarted (boot silentBrowser (Created (ChatSession 0)) 1000 1000)
   \<and> spoken (trace (handleStartConversation silentBrowser False
         (boot silentBrowser (Created (ChatSession 0)) 1000 1000))) = []"
  by (simp add: boot_def clientConstructorThrows_def apiKey_def js_def mountEffect_def
      createChatSession_def recognitionEffect_def silentBrowser_def initialState_def
      handleStartConversation_def speakText_def)

section \<open>Recording while speaking\<close>

text \<open>
  Claim C3 asks that \<open>isRecording\<close> and \<open>isAISpeaking\<close> be never both true. The
  program does not keep this. \<open>handleToggleRecording\<close> cancels playback only when
  \<open>isAISpeaking\<close> is set, and only the start callback of an utterance sets it. A click on the microphone
  after \<open>speakText\<close> and before that callback starts a recording without any
  cancellation; when the callback then runs, \<open>isRecording\<close> and \<open>isAISpeaking\<close> are
  both true.
\<close>

theorem C3_recording_while_speaking:
  "isRecording (run fullBrowser [ClickMic, MediaSettled Started, UttStart] (started fullBrowser))
   \<and> isAISpeaking (run fullBrowser [ClickMic, MediaSettled Started, UttStart] (started fullBrowser))
   \<and> trace (run fullBrowser [ClickMic, MediaSettled Started, UttStart] (started fullBrowser))
     = [ChatsCreate, SynthSpeak initialMessageText, GetUserMedia, RecognitionStart]"
  by code_simp

section \<open>Identifiers of Turns\<close>

text \<open>
  Claim C9 asks that distinct Turns of the log have distinct ids. The program does not
  ensure it. An id is the rendering of a clock reading: \<open>Date.now()\<close> for the user's
  Turn, \<open>Date.now() + 1\<close> for the agent's. With a reply logged at reading 3000 and the
  next user Turn at reading 3001, two Turns of the log carry the id 3001. So do the two
  fallback Turns of two outstanding requests that fail within the same millisecond.
\<close>

theorem C9_duplicate_id:
  "map id' (messages (run fullBrowser
       [BackendSettled (Responded (js ''ok'')) 3000 3000 False, UttStart, UttEnd, ClickMic,
        MediaSettled Started, RecResult (segment True ''yes''), RecEnd 3001 3001]
       (awaitingReply fullBrowser)))
     = [js ''1000'', js ''2000'', js ''3001'', js ''3001'']
   \<and> map sender (messages (run fullBrowser
       [BackendSettled (Responded (js ''ok'')) 3000 3000 False, UttStart, UttEnd, ClickMic,
        MediaSettled Started, RecResult (segment True ''yes''), RecEnd 3001 3001]
       (awaitingReply fullBrowser)))
     = [AI, USER, AI, USER]
   \<and> map id' (messages (run fullBrowser raceBothFail (greeted fullBrowser)))
     = [js ''1000'', js ''2000'', js ''2500'', js ''3001'', js ''3001'']"
  by code_simp

end
